theory Spec2Isabelle
  imports Complex_Main
begin

section \<open>JavaScript values\<close>

text \<open>
  A JavaScript string is a sequence of UTF-16 code units; a code unit is a natural number
  (below 65536 in every string the host hands over). \<open>lit\<close> writes an ASCII literal.
\<close>

type_synonym jsstring = "nat list"

definition lit :: "string \<Rightarrow> jsstring" where
  "lit s = map of_char s"

text \<open>
  A number is a binary64 value: a rational when finite, or one of the three special
  values. Only comparison, truthiness and division by zero are used below, and they are
  exact on these values.
\<close>

datatype jsnum = Fin rat | PosInf | NegInf | NaN

text \<open>What \<open>JSON.parse\<close> can return. An object lists its own properties, each name once.\<close>

datatype json =
    JNull
  | JBool bool
  | JNum jsnum
  | JStr jsstring
  | JArr "json list"
  | JObj "(jsstring \<times> json) list"

text \<open>
  The host: the functions of the JavaScript engine and browser that the code calls and
  whose results are not determined by the repository.
  \<^item> \<open>JSON_parse\<close>: \<open>JSON.parse(text)\<close>; \<open>None\<close> when it throws SyntaxError.
  \<^item> \<open>ToNumber_other\<close>: the number a string, array or object converts to in a comparison
    (NaN also where the conversion of an object throws TypeError: the comparison is then
    abandoned inside a \<open>try\<close> block whose handler returns false, as a comparison with NaN
    does).
  \<^item> \<open>Date_parse\<close>: the time value (milliseconds since the epoch) of \<open>new Date(text)\<close>;
    \<open>None\<close> for an Invalid Date, whose time value is NaN.
  \<^item> \<open>setHours0\<close>: the time value after \<open>setHours(0, 0, 0, 0)\<close> on a valid date (local
    midnight of the same day; depends on the host's time zone).
  \<^item> \<open>toISOString\<close>: \<open>toISOString()\<close> of a valid date.
  \<^item> \<open>roundPercent\<close>: the binary64 value of \<open>Math.round((a / b) * 100)\<close> for a positive
    \<open>b\<close>.
  \<^item> \<open>plus64\<close>: the binary64 sum \<open>a + b\<close> of two numbers.
\<close>

record host =
  JSON_parse :: "jsstring \<Rightarrow> json option"
  ToNumber_other :: "json \<Rightarrow> jsnum"
  Date_parse :: "jsstring \<Rightarrow> int option"
  setHours0 :: "int \<Rightarrow> int option"
  toISOString :: "int \<Rightarrow> jsstring"
  roundPercent :: "nat \<Rightarrow> nat \<Rightarrow> int"
  plus64 :: "jsnum \<Rightarrow> jsnum \<Rightarrow> jsnum"

text \<open>Truthiness (ToBoolean).\<close>

fun truthy :: "json \<Rightarrow> bool" where
  "truthy JNull = False"
| "truthy (JBool b) = b"
| "truthy (JNum (Fin q)) = (q \<noteq> 0)"
| "truthy (JNum NaN) = False"
| "truthy (JNum PosInf) = True"
| "truthy (JNum NegInf) = True"
| "truthy (JStr s) = (s \<noteq> [])"
| "truthy (JArr xs) = True"
| "truthy (JObj kvs) = True"

text \<open>
  Reading one of the properties \<open>exp\<close>, \<open>role\<close>, \<open>id\<close> or \<open>username\<close> of a value that is
  not null: \<open>None\<close> is \<open>undefined\<close>. Only an object can carry one of these names; arrays,
  strings, numbers and booleans (and every prototype) have none of them.
\<close>

fun getProp :: "json \<Rightarrow> jsstring \<Rightarrow> json option" where
  "getProp (JObj kvs) k = map_of kvs k"
| "getProp v k = None"

text \<open>ToNumber of a property that was read (\<open>undefined\<close> is NaN).\<close>

fun toNumber :: "host \<Rightarrow> json option \<Rightarrow> jsnum" where
  "toNumber h None = NaN"
| "toNumber h (Some JNull) = Fin 0"
| "toNumber h (Some (JBool b)) = Fin (if b then 1 else 0)"
| "toNumber h (Some (JNum n)) = n"
| "toNumber h (Some v) = ToNumber_other h v"

text \<open>The comparison \<open>a > b\<close> of two numbers.\<close>

fun js_gt :: "jsnum \<Rightarrow> jsnum \<Rightarrow> bool" where
  "js_gt NaN b = False"
| "js_gt a NaN = False"
| "js_gt (Fin x) (Fin y) = (y < x)"
| "js_gt PosInf PosInf = False"
| "js_gt PosInf b = True"
| "js_gt a PosInf = False"
| "js_gt NegInf b = False"
| "js_gt a NegInf = True"

section \<open>String operations of the host\<close>

text \<open>\<open>s.split(sep)\<close> for a one-character separator: never an empty list.\<close>

fun split :: "nat \<Rightarrow> jsstring \<Rightarrow> jsstring list" where
  "split sep [] = [[]]"
| "split sep (c # cs) =
     (if c = sep then [] # split sep cs
      else (case split sep cs of
              [] \<Rightarrow> [[c]]
            | s # ss \<Rightarrow> (c # s) # ss))"

text \<open>\<open>s.replace(/a/g, b)\<close> for single characters \<open>a\<close> and \<open>b\<close>.\<close>

definition replace_all :: "nat \<Rightarrow> nat \<Rightarrow> jsstring \<Rightarrow> jsstring" where
  "replace_all a b s = map (\<lambda>c. if c = a then b else c) s"

text \<open>\<open>n.toString(16)\<close> of a natural number, in lower case.\<close>

definition hexdigit :: "nat \<Rightarrow> nat" where
  "hexdigit d = (if d < 10 then 48 + d else 87 + d)"

function toString16 :: "nat \<Rightarrow> jsstring" where
  "toString16 n = (if n < 16 then [hexdigit n] else toString16 (n div 16) @ [hexdigit (n mod 16)])"
  by pat_completeness auto
termination
  by (relation "measure id") auto

text \<open>\<open>s.slice(-2)\<close>: the last two code units.\<close>

definition slice_last2 :: "jsstring \<Rightarrow> jsstring" where
  "slice_last2 s = drop (length s - 2) s"

text \<open>The callback \<open>c => '%' + ('00' + c.charCodeAt(0).toString(16)).slice(-2)\<close>.\<close>

definition percent :: "nat \<Rightarrow> jsstring" where
  "percent c = 37 # slice_last2 (lit ''00'' @ toString16 c)"

subsection \<open>atob\<close>

text \<open>
  \<open>atob\<close> is the forgiving-base64 decode of the HTML standard: ASCII whitespace is
  removed; when the length is a multiple of four, one or two trailing \<open>=\<close> are removed; a
  length of 1 modulo 4 or a character outside the alphabet fails (InvalidCharacterError);
  every four characters give three bytes, two or three left over give one or two bytes.
  The result is a string with one code unit per byte.
\<close>

definition is_ascii_whitespace :: "nat \<Rightarrow> bool" where
  "is_ascii_whitespace c = (c = 9 \<or> c = 10 \<or> c = 12 \<or> c = 13 \<or> c = 32)"

definition b64val :: "nat \<Rightarrow> nat option" where
  "b64val c =
     (if 65 \<le> c \<and> c \<le> 90 then Some (c - 65)
      else if 97 \<le> c \<and> c \<le> 122 then Some (c - 71)
      else if 48 \<le> c \<and> c \<le> 57 then Some (c + 4)
      else if c = 43 then Some 62
      else if c = 47 then Some 63
      else None)"

definition strip_padding :: "jsstring \<Rightarrow> jsstring" where
  "strip_padding d =
     (if d \<noteq> [] \<and> last d = 61 then
        (if butlast d \<noteq> [] \<and> last (butlast d) = 61 then butlast (butlast d) else butlast d)
      else d)"

fun b64groups :: "nat list \<Rightarrow> nat list" where
  "b64groups (a # b # c # d # rest) =
     (a * 4 + b div 16) # ((b mod 16) * 16 + c div 4) # ((c mod 4) * 64 + d) # b64groups rest"
| "b64groups [a, b, c] = [a * 4 + b div 16, (b mod 16) * 16 + c div 4]"
| "b64groups [a, b] = [a * 4 + b div 16]"
| "b64groups [a] = []"
| "b64groups [] = []"

definition atob :: "jsstring \<Rightarrow> jsstring option" where
  "atob data =
     (let d1 = filter (\<lambda>c. \<not> is_ascii_whitespace c) data;
          d2 = (if length d1 mod 4 = 0 then strip_padding d1 else d1)
      in if length d2 mod 4 = 1 then None
         else (case those (map b64val d2) of
                 None \<Rightarrow> None
               | Some vs \<Rightarrow> Some (b64groups vs)))"

subsection \<open>decodeURIComponent\<close>

text \<open>
  \<open>decodeURIComponent\<close> (ECMAScript, Decode with an empty reserved set): a character
  other than \<open>%\<close> is kept; \<open>%\<close> must be followed by two hexadecimal digits, which give an
  octet; an octet below 128 is that character; otherwise the octet must start a
  well-formed UTF-8 sequence of two to four octets, all of them escaped, and the code point
  is appended in UTF-16. Anything else throws URIError, here \<open>None\<close>.
\<close>

definition hexval :: "nat \<Rightarrow> nat option" where
  "hexval c =
     (if 48 \<le> c \<and> c \<le> 57 then Some (c - 48)
      else if 65 \<le> c \<and> c \<le> 70 then Some (c - 55)
      else if 97 \<le> c \<and> c \<le> 102 then Some (c - 87)
      else None)"

text \<open>First pass: each \<open>%XX\<close> becomes an octet (\<open>Inr\<close>), any other character stays (\<open>Inl\<close>).\<close>

fun unescape :: "jsstring \<Rightarrow> (nat + nat) list option" where
  "unescape [] = Some []"
| "unescape (c # cs) =
     (if c \<noteq> 37 then map_option ((#) (Inl c)) (unescape cs)
      else (case cs of
              a # b # rest \<Rightarrow>
                (case (hexval a, hexval b) of
                   (Some x, Some y) \<Rightarrow> map_option ((#) (Inr (16 * x + y))) (unescape rest)
                 | _ \<Rightarrow> None)
            | _ \<Rightarrow> None))"

definition is_cont :: "nat \<Rightarrow> bool" where
  "is_cont b = (128 \<le> b \<and> b < 192)"

definition is_scalar :: "nat \<Rightarrow> bool" where
  "is_scalar v = (v < 55296 \<or> (57344 \<le> v \<and> v \<le> 1114111))"

definition utf16 :: "nat \<Rightarrow> jsstring" where
  "utf16 v =
     (if v < 65536 then [v]
      else [55296 + (v - 65536) div 1024, 56320 + (v - 65536) mod 1024])"

text \<open>Second pass: the octets are read as UTF-8.\<close>

fun utf8_units :: "(nat + nat) list \<Rightarrow> jsstring option" where
  "utf8_units [] = Some []"
| "utf8_units (Inl c # xs) = map_option ((#) c) (utf8_units xs)"
| "utf8_units (Inr b # xs) =
     (if b < 128 then map_option ((#) b) (utf8_units xs)
      else if b < 192 then None
      else if b < 224 then
        (case xs of
           Inr b1 # ys \<Rightarrow>
             (let v = (b - 192) * 64 + (b1 - 128)
              in if is_cont b1 \<and> 128 \<le> v
                 then map_option ((@) (utf16 v)) (utf8_units ys) else None)
         | _ \<Rightarrow> None)
      else if b < 240 then
        (case xs of
           Inr b1 # Inr b2 # ys \<Rightarrow>
             (let v = (b - 224) * 4096 + (b1 - 128) * 64 + (b2 - 128)
              in if is_cont b1 \<and> is_cont b2 \<and> 2048 \<le> v \<and> is_scalar v
                 then map_option ((@) (utf16 v)) (utf8_units ys) else None)
         | _ \<Rightarrow> None)
      else if b < 248 then
        (case xs of
           Inr b1 # Inr b2 # Inr b3 # ys \<Rightarrow>
             (let v = (b - 240) * 262144 + (b1 - 128) * 4096 + (b2 - 128) * 64 + (b3 - 128)
              in if is_cont b1 \<and> is_cont b2 \<and> is_cont b3 \<and> 65536 \<le> v \<and> is_scalar v
                 then map_option ((@) (utf16 v)) (utf8_units ys) else None)
         | _ \<Rightarrow> None)
      else None)"

definition decodeURIComponent :: "jsstring \<Rightarrow> jsstring option" where
  "decodeURIComponent s = (case unescape s of None \<Rightarrow> None | Some xs \<Rightarrow> utf8_units xs)"

section \<open>Credential decoder (src/utils/authUtils.ts)\<close>

text \<open>
  \<open>parseJwt\<close>: every exception inside the \<open>try\<close> block (the second segment missing, \<open>atob\<close>,
  \<open>decodeURIComponent\<close> or \<open>JSON.parse\<close> throwing) is caught and gives \<open>null\<close>.
\<close>

definition parseJwt :: "host \<Rightarrow> jsstring \<Rightarrow> json" where
  "parseJwt h token =
     (case split 46 token of
        s0 # base64Url # ss \<Rightarrow>
          (let base64 = replace_all 95 47 (replace_all 45 43 base64Url)
           in case atob base64 of
                None \<Rightarrow> JNull
              | Some bin \<Rightarrow>
                  (case decodeURIComponent (concat (map percent bin)) of
                     None \<Rightarrow> JNull
                   | Some jsonPayload \<Rightarrow>
                       (case JSON_parse h jsonPayload of
                          None \<Rightarrow> JNull
                        | Some v \<Rightarrow> v)))
      | _ \<Rightarrow> JNull)"

text \<open>
  \<open>isTokenValid\<close>: \<open>currentTime\<close> is the value of \<open>Date.now() / 1000\<close>, a finite number.
\<close>

definition isTokenValid :: "host \<Rightarrow> rat \<Rightarrow> jsstring \<Rightarrow> bool" where
  "isTokenValid h currentTime token =
     (let decoded = parseJwt h token
      in if \<not> truthy decoded then False
         else js_gt (toNumber h (getProp decoded (lit ''exp''))) (Fin currentTime))"

text \<open>
  The session store: \<open>localStorage\<close>, a map from keys to strings. The accessors read the
  key \<open>authToken\<close>; \<open>decoded?.f || null\<close> gives \<open>null\<close> for a missing or falsy field.
\<close>

type_synonym storage = "jsstring \<rightharpoonup> jsstring"

definition or_null :: "json option \<Rightarrow> json" where
  "or_null v = (case v of None \<Rightarrow> JNull | Some x \<Rightarrow> if truthy x then x else JNull)"

definition opt_chain :: "json \<Rightarrow> jsstring \<Rightarrow> json option" where
  "opt_chain decoded k = (if decoded = JNull then None else getProp decoded k)"

definition claim_accessor :: "jsstring \<Rightarrow> host \<Rightarrow> storage \<Rightarrow> json" where
  "claim_accessor k h store =
     (case store (lit ''authToken'') of
        None \<Rightarrow> JNull
      | Some token \<Rightarrow>
          if token = [] then JNull
          else or_null (opt_chain (parseJwt h token) k))"

definition getUserRoleFromToken :: "host \<Rightarrow> storage \<Rightarrow> json" where
  "getUserRoleFromToken = claim_accessor (lit ''role'')"

definition getUserIdFromToken :: "host \<Rightarrow> storage \<Rightarrow> json" where
  "getUserIdFromToken = claim_accessor (lit ''id'')"

definition getUsername :: "host \<Rightarrow> storage \<Rightarrow> json" where
  "getUsername = claim_accessor (lit ''username'')"

definition clearAuthToken :: "storage \<Rightarrow> storage" where
  "clearAuthToken store = store(lit ''authToken'' := None)"

section \<open>Booking aggregator (src/pages/AdminDashboard.tsx, ReceptionistDashboard)\<close>

text \<open>
  The records hold the fields that the aggregation reads.
\<close>

record Room =
  roomNumber :: jsstring

record Booking =
  room :: Room
  guestName :: jsstring
  bookingCode :: jsstring
  status :: jsstring
  totalCharges :: jsnum
  scheduledCheckOut :: jsstring
  scheduledCheckIn :: jsstring

record UpcomingCheckout =
  bookingCode :: jsstring
  guestName :: jsstring
  roomNumber :: jsstring
  remainingTime :: jsstring

text \<open>
  The object built by the first \<open>map\<close> carries \<open>remainingMs\<close> as well (\<open>None\<close> is NaN); the
  last \<open>map\<close> drops it again, which is the truncation of the record.
\<close>

record RankedCheckout = UpcomingCheckout +
  remainingMs :: "int option"

record DailySummary =
  checkIns :: nat
  checkOuts :: nat
  revenue :: jsnum
  occupancyRate :: jsnum
  pendingPayments :: nat

record TaskCount =
  checkIns :: nat
  checkOuts :: nat
  reservations :: nat
  roomInspections :: nat

subsection \<open>Numbers in the aggregation\<close>

text \<open>The decimal string of an integer (of magnitude below \<open>10^21\<close>).\<close>

function toString10 :: "nat \<Rightarrow> jsstring" where
  "toString10 n = (if n < 10 then [48 + n] else toString10 (n div 10) @ [48 + n mod 10])"
  by pat_completeness auto
termination
  by (relation "measure id") auto

definition numberToString :: "int \<Rightarrow> jsstring" where
  "numberToString i = (if i < 0 then 45 # toString10 (nat (- i)) else toString10 (nat i))"

text \<open>The remainder \<open>a % b\<close> of integers: it truncates and has the sign of \<open>a\<close>.\<close>

definition js_rem :: "int \<Rightarrow> int \<Rightarrow> int" where
  "js_rem a b = sgn a * (\<bar>a\<bar> mod \<bar>b\<bar>)"

text \<open>
  \<open>Math.round((a / b) * 100)\<close> for two array lengths: \<open>0 / 0\<close> is NaN, and a positive
  length divided by \<open>0\<close> is Infinity; multiplying by 100 and rounding keep both.
\<close>

definition round_percent :: "host \<Rightarrow> nat \<Rightarrow> nat \<Rightarrow> jsnum" where
  "round_percent h a b =
     (if b = 0 then (if a = 0 then NaN else PosInf)
      else Fin (of_int (roundPercent h a b)))"

text \<open>\<open>s.includes(t)\<close>.\<close>

fun starts_with :: "jsstring \<Rightarrow> jsstring \<Rightarrow> bool" where
  "starts_with s [] = True"
| "starts_with [] (y # ys) = False"
| "starts_with (x # xs) (y # ys) = (x = y \<and> starts_with xs ys)"

fun js_includes :: "jsstring \<Rightarrow> jsstring \<Rightarrow> bool" where
  "js_includes [] t = (t = [])"
| "js_includes (c # cs) t = (starts_with (c # cs) t \<or> js_includes cs t)"

subsection \<open>Upcoming checkouts\<close>

text \<open>
  The callback of the first \<open>map\<close>; \<open>now\<close> is the time value of the \<open>new Date()\<close> that this
  call of the callback makes. Time values are integers. The difference, the two quotients
  and their decimal strings are computed exactly here, as binary64 computes them whenever
  the difference lies in the window of the filter that follows; an entry outside the
  window is dropped by that filter.
\<close>

definition checkout_entry :: "host \<Rightarrow> int \<Rightarrow> Booking \<Rightarrow> RankedCheckout" where
  "checkout_entry h now booking =
     (let checkoutTime = Date_parse h (scheduledCheckOut booking);
          timeDiff = map_option (\<lambda>t. t - now) checkoutTime;
          remainingTime =
            (case timeDiff of
               None \<Rightarrow> lit ''NaNhr NaNmin''
             | Some d \<Rightarrow>
                 (let hoursRemaining = d div (1000 * 60 * 60);
                      minutesRemaining = js_rem d (1000 * 60 * 60) div (1000 * 60)
                  in numberToString hoursRemaining @ lit ''hr '' @
                     numberToString minutesRemaining @ lit ''min''))
      in \<lparr> bookingCode = Booking.bookingCode booking,
           guestName = Booking.guestName booking,
           roomNumber = Room.roomNumber (room booking),
           remainingTime = remainingTime,
           remainingMs = timeDiff \<rparr>)"

definition in_window :: "RankedCheckout \<Rightarrow> bool" where
  "in_window checkout =
     (case remainingMs checkout of
        None \<Rightarrow> False
      | Some ms \<Rightarrow> 0 < ms \<and> ms \<le> 2 * 60 * 60 * 1000)"

text \<open>The sort key; an entry without a number never reaches the sort.\<close>

definition ms_key :: "RankedCheckout \<Rightarrow> int" where
  "ms_key checkout = (case remainingMs checkout of None \<Rightarrow> 0 | Some ms \<Rightarrow> ms)"

text \<open>
  The chain up to \<open>slice(0, 3)\<close>. \<open>clock i\<close> is the reading of the \<open>new Date()\<close> in the
  \<open>i\<close>-th call of the callback. \<open>Array.prototype.sort\<close> is stable, as \<open>sort_key\<close> is.
\<close>

definition upcomingRanked :: "host \<Rightarrow> (nat \<Rightarrow> int) \<Rightarrow> Booking list \<Rightarrow> RankedCheckout list" where
  "upcomingRanked h clock bookingsData =
     (let checkedInBookings = filter (\<lambda>b. status b = lit ''CHECKED_IN'') bookingsData
      in take 3
           (sort_key ms_key
              (filter in_window
                 (map (\<lambda>(i, booking). checkout_entry h (clock i) booking)
                      (enumerate 0 checkedInBookings)))))"

definition upcomingCheckoutsList ::
  "host \<Rightarrow> (nat \<Rightarrow> int) \<Rightarrow> Booking list \<Rightarrow> UpcomingCheckout list" where
  "upcomingCheckoutsList h clock bookingsData =
     map UpcomingCheckout.truncate (upcomingRanked h clock bookingsData)"

subsection \<open>Daily summary of the administrator's dashboard\<close>

text \<open>\<open>new Date(text)\<close> followed by \<open>setHours(0, 0, 0, 0)\<close>; an Invalid Date stays invalid.\<close>

definition day_of :: "host \<Rightarrow> jsstring \<Rightarrow> int option" where
  "day_of h text = (case Date_parse h text of None \<Rightarrow> None | Some t \<Rightarrow> setHours0 h t)"

text \<open>\<open>a.getTime() === b.getTime()\<close>: NaN equals nothing.\<close>

definition same_time :: "int option \<Rightarrow> int option \<Rightarrow> bool" where
  "same_time a b = (case (a, b) of (Some x, Some y) \<Rightarrow> x = y | _ \<Rightarrow> False)"

text \<open>\<open>now\<close> is the time value of the \<open>new Date()\<close> that \<open>today\<close> starts from.\<close>

definition dailySummary ::
  "host \<Rightarrow> int \<Rightarrow> Room list \<Rightarrow> Booking list \<Rightarrow> DailySummary" where
  "dailySummary h now roomsData bookingsData =
     (let today = setHours0 h now;
          todayCheckIns =
            length (filter (\<lambda>booking. same_time (day_of h (scheduledCheckIn booking)) today)
                      bookingsData);
          todayCheckOuts =
            length (filter (\<lambda>booking. same_time (day_of h (scheduledCheckOut booking)) today)
                      bookingsData);
          todayRevenue =
            foldl (\<lambda>sum booking. plus64 h sum (totalCharges booking)) (Fin 0)
              (filter (\<lambda>booking. same_time (day_of h (scheduledCheckIn booking)) today)
                 bookingsData);
          totalRooms = length roomsData;
          occupiedRooms = length (filter (\<lambda>booking. status booking = lit ''CHECKED_IN'') bookingsData);
          occupancyRate = round_percent h occupiedRooms totalRooms;
          pendingPayments = length (filter (\<lambda>booking. status booking = lit ''RESERVED'') bookingsData)
      in \<lparr> DailySummary.checkIns = todayCheckIns,
           DailySummary.checkOuts = todayCheckOuts,
           revenue = todayRevenue,
           occupancyRate = occupancyRate,
           pendingPayments = pendingPayments \<rparr>)"

subsection \<open>Task counts of the receptionist's dashboard\<close>

definition taskCounts :: "host \<Rightarrow> int \<Rightarrow> Booking list \<Rightarrow> TaskCount" where
  "taskCounts h now data =
     (let today = (case split 84 (toISOString h now) of [] \<Rightarrow> [] | s # ss \<Rightarrow> s);
          checkIns = length (filter (\<lambda>b. js_includes (scheduledCheckIn b) today \<and>
                                         status b = lit ''RESERVED'') data);
          checkOuts = length (filter (\<lambda>b. js_includes (scheduledCheckOut b) today \<and>
                                          status b = lit ''CHECKED_IN'') data);
          reservations = length (filter (\<lambda>b. status b = lit ''RESERVED'') data)
      in \<lparr> TaskCount.checkIns = checkIns,
           TaskCount.checkOuts = checkOuts,
           reservations = reservations,
           roomInspections = 4 \<rparr>)"

section \<open>Encoders\<close>






section \<open>A host and data for the worked examples\<close>

text \<open>
  The examples run on a host in the UTC time zone, given by what it returns on the texts
  and numbers that the examples use; the fields that no example reaches hold a default.
  The three JSON texts are the claims of an administrator, claims whose role and user
  name are empty strings, and claims whose user name has characters of two, three and
  four UTF-8 bytes (the last one a surrogate pair in the string).
\<close>

definition claims_admin :: json where
  "claims_admin =
     JObj [(lit ''id'', JStr (lit ''1'')), (lit ''role'', JStr (lit ''ADMIN'')),
           (lit ''exp'', JNum (Fin 9999999999))]"

definition claims_blank :: json where
  "claims_blank =
     JObj [(lit ''id'', JStr (lit ''1'')), (lit ''role'', JStr []),
           (lit ''username'', JStr []), (lit ''exp'', JNum (Fin 9999999999))]"

definition claims_unicode :: json where
  "claims_unicode =
     JObj [(lit ''username'', JStr (lit ''Zo'' @ [235, 32, 8364, 32, 55357, 56593])),
           (lit ''exp'', JNum (Fin 1))]"

definition example_JSON_parse :: "jsstring \<Rightarrow> json option" where
  \<open>example_JSON_parse text =
     (if text = lit ''{"id":"1","role":"ADMIN","exp":9999999999}'' then Some claims_admin
      else if text = lit ''{"id":"1","role":"","username":"","exp":9999999999}''
        then Some claims_blank
      else if text = lit ''{"username":"Zo'' @ [235, 32, 8364, 32, 55357, 56593] @
                     lit ''","exp":1}''
        then Some claims_unicode
      else None)\<close>

definition example_Date_parse :: "jsstring \<Rightarrow> int option" where
  "example_Date_parse text =
     (if text = lit ''2024-03-07T09:00:00Z'' then Some 1709802000000
      else if text = lit ''2024-03-07T12:00:05Z'' then Some 1709812805000
      else if text = lit ''2024-03-07T12:00:45Z'' then Some 1709812845000
      else if text = lit ''2024-03-07T12:02:00Z'' then Some 1709812920000
      else if text = lit ''2024-03-07T13:00:00Z'' then Some 1709816400000
      else None)"

definition example_host :: host where
  "example_host =
     \<lparr> JSON_parse = example_JSON_parse,
       ToNumber_other = (\<lambda>v. NaN),
       Date_parse = example_Date_parse,
       setHours0 = (\<lambda>t. Some (t - t mod 86400000)),
       toISOString = (\<lambda>t. if t = 1709812800000 then lit ''2024-03-07T12:00:00.000Z''
                          else lit ''1970-01-01T00:00:00.000Z''),
       roundPercent = (\<lambda>a b. (200 * int a + int b) div (2 * int b)),
       plus64 = (\<lambda>a b. case (a, b) of (Fin x, Fin y) \<Rightarrow> Fin (x + y) | _ \<Rightarrow> NaN) \<rparr>"

text \<open>Noon of 7 March 2024 (UTC), and a clock that stands still at noon.\<close>

definition example_noon :: int where
  "example_noon = 1709812800000"

definition example_clock :: "nat \<Rightarrow> int" where
  "example_clock i = example_noon"

text \<open>A booking of room 101 with a booking code, a status, and the two scheduled instants.\<close>

definition example_booking :: "string \<Rightarrow> string \<Rightarrow> string \<Rightarrow> string \<Rightarrow> Booking" where
  "example_booking code st checkIn checkOut =
     \<lparr> room = \<lparr> Room.roomNumber = lit ''101'' \<rparr>,
       Booking.guestName = lit ''Guest'',
       Booking.bookingCode = lit code,
       status = lit st,
       totalCharges = Fin 50,
       scheduledCheckOut = lit checkOut,
       scheduledCheckIn = lit checkIn \<rparr>"

definition example_rooms :: "Room list" where
  "example_rooms = [\<lparr> Room.roomNumber = lit ''101'' \<rparr>]"

text \<open>Four checked-in bookings due 5 s, 120 s, 45 s and one hour after noon.\<close>

definition example_due :: "Booking list" where
  "example_due =
     [example_booking ''B1'' ''CHECKED_IN'' ''2024-03-07T09:00:00Z'' ''2024-03-07T12:00:05Z'',
      example_booking ''B2'' ''CHECKED_IN'' ''2024-03-07T09:00:00Z'' ''2024-03-07T12:02:00Z'',
      example_booking ''B3'' ''CHECKED_IN'' ''2024-03-07T09:00:00Z'' ''2024-03-07T12:00:45Z'',
      example_booking ''B4'' ''CHECKED_IN'' ''2024-03-07T09:00:00Z'' ''2024-03-07T13:00:00Z'']"

text \<open>The token of the end-to-end scenario, and its first two segments alone.\<close>

definition example_token :: jsstring where
  "example_token = lit ''a.eyJpZCI6IjEiLCJyb2xlIjoiQURNSU4iLCJleHAiOjk5OTk5OTk5OTl9.sig''"

definition example_token2 :: jsstring where
  "example_token2 = lit ''a.eyJpZCI6IjEiLCJyb2xlIjoiQURNSU4iLCJleHAiOjk5OTk5OTk5OTl9''"

text \<open>A token whose claims have an empty role and an empty user name.\<close>

definition example_blank_token :: jsstring where
  "example_blank_token =
     lit ''a.eyJpZCI6IjEiLCJyb2xlIjoiIiwidXNlcm5hbWUiOiIiLCJleHAiOjk5OTk5OTk5OTl9.sig''"

text \<open>The session store holding that token.\<close>

definition example_store :: storage where
  "example_store = [lit ''authToken'' \<mapsto> example_blank_token]"

text \<open>
  A booking that starts and ends on 7 March and has already left, and a booking due at
  13:00 whose status is written in lower case, next to the same booking in upper case.
\<close>

definition example_departed :: Booking where
  "example_departed =
     example_booking ''B1'' ''CHECKED_OUT'' ''2024-03-07T09:00:00Z'' ''2024-03-07T13:00:00Z''"

definition example_lowercase :: Booking where
  "example_lowercase =
     example_booking ''B1'' ''checked_in'' ''2024-03-07T09:00:00Z'' ''2024-03-07T13:00:00Z''"

definition example_uppercase :: Booking where
  "example_uppercase =
     example_booking ''B1'' ''CHECKED_IN'' ''2024-03-07T09:00:00Z'' ''2024-03-07T13:00:00Z''"


definition example_payload :: jsstring where
  "example_payload = lit ''eyJpZCI6IjEiLCJyb2xlIjoiQURNSU4iLCJleHAiOjk5OTk5OTk5OTl9''"

definition example_token4 :: jsstring where
  "example_token4 =
     lit ''a.eyJpZCI6IjEiLCJyb2xlIjoiQURNSU4iLCJleHAiOjk5OTk5OTk5OTl9.sig.more''"



section \<open>Properties of the booking aggregator\<close>

subsection \<open>Occupancy rate without rooms\<close>

text \<open>
  Claim C1 says that with a room collection of size zero the occupancy rate is exactly 0.
  The code divides by the number of rooms without looking at it: with no rooms the rate
  is never 0; it is NaN when no booking is checked in and Infinity otherwise.
\<close>

theorem zero_rooms_occupancy_is_not_zero:
  "occupancyRate (dailySummary h now [] bookingsData) \<noteq> Fin 0 \<and>
   occupancyRate (dailySummary example_host example_noon [] []) = NaN \<and>
   occupancyRate (dailySummary example_host example_noon [] example_due) = PosInf"
  by (simp add: dailySummary_def Let_def round_percent_def example_due_def example_booking_def)

subsection \<open>Same-day counts of the daily summary\<close>

text \<open>
  Claim C2, as amended: the daily summary counts as check-ins the bookings whose scheduled
  check-in day is today and as check-outs the bookings whose scheduled check-out day is
  today, whatever their status: rewriting the status of every booking changes neither
  count.
\<close>

theorem daily_counts_by_day_only:
  "DailySummary.checkIns (dailySummary h now roomsData bookingsData) =
     length (filter (\<lambda>b. same_time (day_of h (scheduledCheckIn b)) (setHours0 h now))
               bookingsData) \<and>
   DailySummary.checkOuts (dailySummary h now roomsData bookingsData) =
     length (filter (\<lambda>b. same_time (day_of h (scheduledCheckOut b)) (setHours0 h now))
               bookingsData) \<and>
   DailySummary.checkIns
     (dailySummary h now roomsData (map (\<lambda>b. b\<lparr>status := f b\<rparr>) bookingsData)) =
     DailySummary.checkIns (dailySummary h now roomsData bookingsData) \<and>
   DailySummary.checkOuts
     (dailySummary h now roomsData (map (\<lambda>b. b\<lparr>status := f b\<rparr>) bookingsData)) =
     DailySummary.checkOuts (dailySummary h now roomsData bookingsData)"
  by (simp add: dailySummary_def Let_def filter_map o_def)

text \<open>
  With the status condition the claim fails: a booking that has checked out, whose two
  scheduled days are today, is counted once as a check-in and once as a check-out.
\<close>

theorem daily_counts_status_counterexample:
  "DailySummary.checkIns
     (dailySummary example_host example_noon example_rooms [example_departed]) = 1 \<and>
   DailySummary.checkOuts
     (dailySummary example_host example_noon example_rooms [example_departed]) = 1 \<and>
   status example_departed \<noteq> lit ''RESERVED'' \<and>
   status example_departed \<noteq> lit ''CHECKED_IN''"
  by code_simp

subsection \<open>Room inspections in the task counts\<close>

lemma taskCounts_roomInspections: "roomInspections (taskCounts h now data) = 4"
  by (simp add: taskCounts_def Let_def)

text \<open>
  Claim C3, as amended: the task counts take no room-inspection count from the caller;
  the count is the placeholder 4 for every host, time and booking collection.
\<close>

theorem room_inspections_placeholder:
  "roomInspections (taskCounts h now data) = 4"
  by (rule taskCounts_roomInspections)

text \<open>
  So there is a constant that the room-inspection count always equals, which the claim as
  first stated denies.
\<close>

theorem room_inspections_constant_counterexample:
  "\<exists>c. \<forall>h now data. roomInspections (taskCounts h now data) = c"
  using taskCounts_roomInspections by blast

subsection \<open>Status comparison\<close>

text \<open>
  Claim C4, as amended: the status is compared with the exact string \<open>CHECKED_IN\<close> and is
  not normalised: only bookings with exactly this status count for the occupancy rate, the
  upcoming checkouts and the receptionist's check-out count, so leaving all other bookings
  out changes none of the three.
\<close>

theorem checked_in_status_is_exact:
  "occupancyRate (dailySummary h now roomsData
       (filter (\<lambda>b. status b = lit ''CHECKED_IN'') bookingsData)) =
     occupancyRate (dailySummary h now roomsData bookingsData) \<and>
   upcomingCheckoutsList h clock (filter (\<lambda>b. status b = lit ''CHECKED_IN'') bookingsData) =
     upcomingCheckoutsList h clock bookingsData \<and>
   TaskCount.checkOuts (taskCounts h now
       (filter (\<lambda>b. status b = lit ''CHECKED_IN'') bookingsData)) =
     TaskCount.checkOuts (taskCounts h now bookingsData)"
proof -
  have "filter (\<lambda>b. js_includes (scheduledCheckOut b) t \<and> status b = lit ''CHECKED_IN'')
          (filter (\<lambda>b. status b = lit ''CHECKED_IN'') bookingsData) =
        filter (\<lambda>b. js_includes (scheduledCheckOut b) t \<and> status b = lit ''CHECKED_IN'')
          bookingsData" for t
    by (induction bookingsData) simp_all
  then show ?thesis
    by (simp add: dailySummary_def upcomingCheckoutsList_def upcomingRanked_def
        taskCounts_def Let_def)
qed

text \<open>
  A booking whose status arrives as \<open>checked_in\<close> counts nowhere, where the same booking
  with \<open>CHECKED_IN\<close> fills the only room, is an upcoming checkout and a check-out of the
  day.
\<close>

theorem lowercase_status_counterexample:
  "occupancyRate (dailySummary example_host example_noon example_rooms [example_lowercase]) =
     Fin 0 \<and>
   upcomingCheckoutsList example_host example_clock [example_lowercase] = [] \<and>
   TaskCount.checkOuts (taskCounts example_host example_noon [example_lowercase]) = 0 \<and>
   occupancyRate (dailySummary example_host example_noon example_rooms [example_uppercase]) =
     Fin 100 \<and>
   length (upcomingCheckoutsList example_host example_clock [example_uppercase]) = 1 \<and>
   TaskCount.checkOuts (taskCounts example_host example_noon [example_uppercase]) = 1"
  by code_simp

subsection \<open>Upcoming checkouts\<close>

lemma ranked_subset:
  "set (upcomingRanked h clock bs) \<subseteq>
     set (filter in_window
            (map (\<lambda>(i, booking). checkout_entry h (clock i) booking)
               (enumerate 0 (filter (\<lambda>b. status b = lit ''CHECKED_IN'') bs))))"
  unfolding upcomingRanked_def Let_def
  using set_take_subset [of 3] by (metis set_sort)

lemma ranked_in_window:
  assumes "c \<in> set (upcomingRanked h clock bs)"
  shows "in_window c"
  using assms ranked_subset [of h clock bs] by auto

lemma ranked_origin:
  assumes "c \<in> set (upcomingRanked h clock bs)"
  shows "\<exists>i. i < length (filter (\<lambda>b. status b = lit ''CHECKED_IN'') bs) \<and>
             c = checkout_entry h (clock i) (filter (\<lambda>b. status b = lit ''CHECKED_IN'') bs ! i)"
proof -
  let ?cs = "filter (\<lambda>b. status b = lit ''CHECKED_IN'') bs"
  from assms ranked_subset [of h clock bs]
  have "c \<in> set (map (\<lambda>(i, booking). checkout_entry h (clock i) booking) (enumerate 0 ?cs))"
    by auto
  then obtain i b where ib: "(i, b) \<in> set (enumerate 0 ?cs)"
    and c: "c = checkout_entry h (clock i) b"
    by auto
  from ib have "i < length ?cs" and "?cs ! i = b"
    by (simp_all add: in_set_enumerate_eq)
  with c show ?thesis by blast
qed

lemma in_window_ms:
  "in_window c \<longleftrightarrow> (\<exists>ms. remainingMs c = Some ms \<and> 0 < ms \<and> ms \<le> 7200000)"
  by (cases "remainingMs c") (simp_all add: in_window_def)

lemma remainingMs_entry:
  "remainingMs (checkout_entry h now b) =
     map_option (\<lambda>t. t - now) (Date_parse h (scheduledCheckOut b))"
  by (simp add: checkout_entry_def Let_def)

lemma example_ranked:
  "map remainingMs (upcomingRanked example_host example_clock example_due) =
     [Some 5000, Some 45000, Some 120000]"
  by code_simp

lemma example_upcoming_codes:
  "map UpcomingCheckout.bookingCode
     (upcomingCheckoutsList example_host example_clock example_due) =
     [lit ''B1'', lit ''B3'', lit ''B2'']"
  by code_simp

text \<open>
  Claim C7: the list of upcoming checkouts has at most three entries (the limit of the
  code), however many bookings qualify. It is the projection of the ranked entries, and
  every ranked entry comes from a checked-in booking whose scheduled checkout parses to a
  time \<open>t\<close>, with a remaining time \<open>t - now\<close>, taken at the clock reading of that booking,
  that is greater than 0 and at most two hours (the window of the code).
\<close>

theorem upcoming_within_window_at_most_three:
  "length (upcomingCheckoutsList h clock bookingsData) \<le> 3 \<and>
   upcomingCheckoutsList h clock bookingsData =
     map UpcomingCheckout.truncate (upcomingRanked h clock bookingsData) \<and>
   (\<forall>c \<in> set (upcomingRanked h clock bookingsData).
      \<exists>i t. i < length (filter (\<lambda>b. status b = lit ''CHECKED_IN'') bookingsData) \<and>
        Date_parse h (scheduledCheckOut
           (filter (\<lambda>b. status b = lit ''CHECKED_IN'') bookingsData ! i)) = Some t \<and>
        remainingMs c = Some (t - clock i) \<and>
        0 < t - clock i \<and> t - clock i \<le> 2 * 60 * 60 * 1000)"
proof (intro conjI)
  show "length (upcomingCheckoutsList h clock bookingsData) \<le> 3"
    by (simp add: upcomingCheckoutsList_def upcomingRanked_def Let_def)
next
  show "upcomingCheckoutsList h clock bookingsData =
      map UpcomingCheckout.truncate (upcomingRanked h clock bookingsData)"
    by (simp add: upcomingCheckoutsList_def)
next
  let ?cs = "filter (\<lambda>b. status b = lit ''CHECKED_IN'') bookingsData"
  show "\<forall>c \<in> set (upcomingRanked h clock bookingsData).
      \<exists>i t. i < length ?cs \<and> Date_parse h (scheduledCheckOut (?cs ! i)) = Some t \<and>
        remainingMs c = Some (t - clock i) \<and>
        0 < t - clock i \<and> t - clock i \<le> 2 * 60 * 60 * 1000"
  proof
    fix c assume c: "c \<in> set (upcomingRanked h clock bookingsData)"
    from ranked_origin [OF c] obtain i where i: "i < length ?cs"
      and ce: "c = checkout_entry h (clock i) (?cs ! i)" by blast
    from ranked_in_window [OF c] obtain ms
      where ms: "remainingMs c = Some ms" "0 < ms" "ms \<le> 7200000"
      by (auto simp: in_window_ms)
    from ms(1) ce obtain t
      where t: "Date_parse h (scheduledCheckOut (?cs ! i)) = Some t" "ms = t - clock i"
      by (auto simp: remainingMs_entry)
    with i ms
    show "\<exists>i t. i < length ?cs \<and> Date_parse h (scheduledCheckOut (?cs ! i)) = Some t \<and>
        remainingMs c = Some (t - clock i) \<and>
        0 < t - clock i \<and> t - clock i \<le> 2 * 60 * 60 * 1000"
      by auto
  qed
qed

text \<open>Four bookings qualify in the example; three are returned, the first within the window.\<close>

theorem upcoming_within_window_at_most_three_witness:
  "length (filter (\<lambda>b. status b = lit ''CHECKED_IN'') example_due) = 4 \<and>
   length (upcomingCheckoutsList example_host example_clock example_due) = 3 \<and>
   (\<exists>i t. i < 4 \<and>
      remainingMs (hd (upcomingRanked example_host example_clock example_due)) =
        Some (t - example_clock i) \<and>
      0 < t - example_clock i \<and> t - example_clock i \<le> 7200000)"
proof -
  have n: "length (filter (\<lambda>b. status b = lit ''CHECKED_IN'') example_due) = 4"
    by code_simp
  have l: "length (upcomingCheckoutsList example_host example_clock example_due) = 3"
    using example_upcoming_codes by (metis length_map length_Cons list.size(3) numeral_3_eq_3)
  have "upcomingRanked example_host example_clock example_due \<noteq> []"
    using example_ranked by auto
  then have "hd (upcomingRanked example_host example_clock example_due)
      \<in> set (upcomingRanked example_host example_clock example_due)"
    by simp
  with upcoming_within_window_at_most_three [of example_host example_clock example_due]
  have "\<exists>i t. i < length (filter (\<lambda>b. status b = lit ''CHECKED_IN'') example_due) \<and>
      Date_parse example_host (scheduledCheckOut
         (filter (\<lambda>b. status b = lit ''CHECKED_IN'') example_due ! i)) = Some t \<and>
      remainingMs (hd (upcomingRanked example_host example_clock example_due)) =
        Some (t - example_clock i) \<and>
      0 < t - example_clock i \<and> t - example_clock i \<le> 2 * 60 * 60 * 1000"
    by blast
  then obtain i t where "i < 4"
      "remainingMs (hd (upcomingRanked example_host example_clock example_due)) =
        Some (t - example_clock i)"
      "0 < t - example_clock i" "t - example_clock i \<le> 7200000"
    using n by auto
  then have "\<exists>i t. i < 4 \<and>
      remainingMs (hd (upcomingRanked example_host example_clock example_due)) =
        Some (t - example_clock i) \<and>
      0 < t - example_clock i \<and> t - example_clock i \<le> 7200000"
    by blast
  with n l show ?thesis by simp
qed

lemma ranked_ms_key:
  "map remainingMs (upcomingRanked h clock bs) = map Some (map ms_key (upcomingRanked h clock bs))"
proof -
  have "remainingMs c = Some (ms_key c)" if "c \<in> set (upcomingRanked h clock bs)" for c
    using ranked_in_window [OF that] by (auto simp: in_window_ms ms_key_def)
  then show ?thesis by simp
qed

lemma ranked_sorted: "sorted (map ms_key (upcomingRanked h clock bs))"
  unfolding upcomingRanked_def Let_def
  by (simp add: take_map [symmetric] sorted_wrt_take del: take_map)

text \<open>
  Claim C8: the remaining times of the entries behind the list of upcoming checkouts are
  numbers in ascending order; three checked-in bookings with 5000 ms, 120000 ms and
  45000 ms left come out in the order 5000 ms, 45000 ms, 120000 ms, that is first, third,
  second.
\<close>

theorem upcoming_sorted_by_remaining:
  "(\<exists>ms. map remainingMs (upcomingRanked h clock bookingsData) = map Some ms \<and> sorted ms) \<and>
   upcomingCheckoutsList h clock bookingsData =
     map UpcomingCheckout.truncate (upcomingRanked h clock bookingsData) \<and>
   map remainingMs (upcomingRanked example_host example_clock (take 3 example_due)) =
     [Some 5000, Some 45000, Some 120000] \<and>
   map UpcomingCheckout.bookingCode
     (upcomingCheckoutsList example_host example_clock (take 3 example_due)) =
     [lit ''B1'', lit ''B3'', lit ''B2'']"
proof -
  have a: "\<exists>ms. map remainingMs (upcomingRanked h clock bookingsData) = map Some ms \<and> sorted ms"
    using ranked_ms_key ranked_sorted by blast
  have b: "map remainingMs (upcomingRanked example_host example_clock (take 3 example_due)) =
     [Some 5000, Some 45000, Some 120000]"
    by code_simp
  have c: "map UpcomingCheckout.bookingCode
     (upcomingCheckoutsList example_host example_clock (take 3 example_due)) =
     [lit ''B1'', lit ''B3'', lit ''B2'']"
    by code_simp
  show ?thesis using a b c by (simp add: upcomingCheckoutsList_def)
qed

section \<open>Properties of the credential decoder\<close>

lemma parseJwt_example_token: "parseJwt example_host example_token = claims_admin"
  by code_simp

lemma parseJwt_example_blank_token: "parseJwt example_host example_blank_token = claims_blank"
  by code_simp

subsection \<open>Percent escapes and UTF-8\<close>













subsection \<open>Base64\<close>


















subsection \<open>Segments\<close>

lemma split_no_sep: "sep \<notin> set s \<Longrightarrow> split sep s = [s]"
  by (induction s) simp_all

lemma split_append: "sep \<notin> set a \<Longrightarrow> split sep (a @ sep # r) = a # split sep r"
  by (induction a) simp_all

lemma split_nonempty: "split sep s \<noteq> []"
  by (induction s) (simp_all split: list.splits)


lemma parseJwt_no_dot: "46 \<notin> set token \<Longrightarrow> parseJwt h token = JNull"
  by (simp add: parseJwt_def split_no_sep)

lemma parseJwt_second_segment:
  assumes "46 \<notin> set s0" and "46 \<notin> set s1"
  shows "parseJwt h (s0 @ 46 # s1 @ 46 # rest) = parseJwt h (s0 @ 46 # s1)"
proof -
  have "split 46 (s0 @ 46 # s1 @ 46 # rest) = s0 # s1 # split 46 rest"
    using assms by (simp add: split_append)
  moreover have "split 46 (s0 @ 46 # s1) = [s0, s1]"
    using assms by (simp add: split_append split_no_sep)
  ultimately show ?thesis
    by (simp add: parseJwt_def)
qed







subsection \<open>Number of segments\<close>

text \<open>
  Claim C5, as amended: an input without a dot, that is with fewer than two segments,
  decodes to null. The number of segments is not checked beyond that: an input with at
  least two segments decodes like its first two segments alone, so an input of two
  segments, or of more than three, is decoded from its second segment as an input of
  three segments is.
\<close>

theorem parseJwt_reads_second_segment:
  "(46 \<notin> set token \<longrightarrow> parseJwt h token = JNull) \<and>
   (46 \<notin> set s0 \<and> 46 \<notin> set s1 \<longrightarrow>
      parseJwt h (s0 @ 46 # s1 @ 46 # rest) = parseJwt h (s0 @ 46 # s1))"
  using parseJwt_no_dot parseJwt_second_segment by blast

text \<open>A token without a dot, and the token of four segments next to that of two.\<close>

theorem parseJwt_reads_second_segment_witness:
  "parseJwt example_host (lit ''abc'') = JNull \<and>
   parseJwt example_host example_token4 = parseJwt example_host example_token2"
proof -
  have a: "46 \<notin> set (lit ''abc'')" "46 \<notin> set (lit ''a'')" "46 \<notin> set example_payload"
    by code_simp+
  have t4: "example_token4 = lit ''a'' @ 46 # example_payload @ 46 # lit ''sig.more''"
    by code_simp
  have t2: "example_token2 = lit ''a'' @ 46 # example_payload"
    by code_simp
  from parseJwt_reads_second_segment
    [of "lit ''abc''" example_host "lit ''a''" example_payload "lit ''sig.more''"] a
  have "parseJwt example_host (lit ''abc'') = JNull"
    and "parseJwt example_host (lit ''a'' @ 46 # example_payload @ 46 # lit ''sig.more'') =
         parseJwt example_host (lit ''a'' @ 46 # example_payload)"
    by blast+
  then show ?thesis
    unfolding t4 t2 by (rule conjI)
qed

text \<open>
  The claim as first stated fails: the tokens of two and of four segments decode to the
  claims of their second segment, not to null.
\<close>

theorem parseJwt_segment_count_counterexample:
  "length (split 46 example_token2) = 2 \<and> parseJwt example_host example_token2 \<noteq> JNull \<and>
   length (split 46 example_token4) = 4 \<and> parseJwt example_host example_token4 \<noteq> JNull"
  by code_simp

subsection \<open>Expiry\<close>

text \<open>
  Claim C6: for a token that decodes to claims with a numeric expiry, \<open>isTokenValid\<close> is
  true exactly when the expiry is strictly greater than the current time in seconds; an
  expiry equal to the current time gives false, one second later gives true.
\<close>

theorem isTokenValid_iff_expiry_later:
  assumes "parseJwt h token = decoded"
    and "getProp decoded (lit ''exp'') = Some (JNum n)"
  shows "isTokenValid h currentTime token =
           (case n of Fin e \<Rightarrow> currentTime < e | PosInf \<Rightarrow> True | NegInf \<Rightarrow> False
            | NaN \<Rightarrow> False)"
proof -
  from assms(2) obtain kvs where obj: "decoded = JObj kvs"
    by (cases decoded) simp_all
  have "isTokenValid h currentTime token = js_gt n (Fin currentTime)"
    using assms obj by (simp add: isTokenValid_def Let_def)
  then show ?thesis
    by (cases n) simp_all
qed

text \<open>The token of the scenario expires at 9999999999: invalid at that second, valid one second before.\<close>

theorem isTokenValid_iff_expiry_later_witness:
  "\<not> isTokenValid example_host 9999999999 example_token \<and>
   isTokenValid example_host 9999999998 example_token"
proof -
  have e: "getProp claims_admin (lit ''exp'') = Some (JNum (Fin 9999999999))"
    by (simp add: claims_admin_def lit_def)
  show ?thesis
    using isTokenValid_iff_expiry_later [OF parseJwt_example_token e, of 9999999999]
      isTokenValid_iff_expiry_later [OF parseJwt_example_token e, of 9999999998]
    by simp
qed

subsection \<open>Claim accessors\<close>

lemma or_null_cases: "or_null v = JNull \<or> truthy (or_null v)"
  by (cases v) (simp_all add: or_null_def)

lemma claim_accessor_cases:
  "claim_accessor k h store = JNull \<or> truthy (claim_accessor k h store)"
  using or_null_cases by (simp add: claim_accessor_def split: option.splits)

lemma claim_accessor_falsy:
  assumes "store (lit ''authToken'') = Some token"
    and "getProp (parseJwt h token) k = Some v" and "\<not> truthy v"
  shows "claim_accessor k h store = JNull"
  using assms by (auto simp: claim_accessor_def opt_chain_def or_null_def)

text \<open>
  Claim C10: when the stored token decodes and the requested field is present with a falsy
  value, the accessor returns null; no accessor ever returns the empty string.
\<close>

theorem accessors_never_falsy:
  assumes "store (lit ''authToken'') = Some token"
    and "parseJwt h token = decoded"
    and "\<not> truthy v"
  shows "(getProp decoded (lit ''role'') = Some v \<longrightarrow> getUserRoleFromToken h store = JNull) \<and>
         (getProp decoded (lit ''id'') = Some v \<longrightarrow> getUserIdFromToken h store = JNull) \<and>
         (getProp decoded (lit ''username'') = Some v \<longrightarrow> getUsername h store = JNull) \<and>
         getUserRoleFromToken h store \<noteq> JStr [] \<and>
         getUserIdFromToken h store \<noteq> JStr [] \<and>
         getUsername h store \<noteq> JStr []"
proof -
  have ne: "claim_accessor k h store \<noteq> JStr []" for k
    using claim_accessor_cases [of k h store] by auto
  show ?thesis
    using assms claim_accessor_falsy [of store token h]
    by (auto simp: getUserRoleFromToken_def getUserIdFromToken_def getUsername_def ne)
qed

text \<open>With an empty role and user name stored, both accessors give null; the id is returned.\<close>

theorem accessors_never_falsy_witness:
  "getUserRoleFromToken example_host example_store = JNull \<and>
   getUsername example_host example_store = JNull \<and>
   getUserIdFromToken example_host example_store = JStr (lit ''1'')"
proof -
  have s: "example_store (lit ''authToken'') = Some example_blank_token"
    by (simp add: example_store_def)
  have r: "getProp claims_blank (lit ''role'') = Some (JStr [])"
    by (simp add: claims_blank_def lit_def)
  have u: "getProp claims_blank (lit ''username'') = Some (JStr [])"
    by (simp add: claims_blank_def lit_def)
  have i: "getUserIdFromToken example_host example_store = JStr (lit ''1'')"
    using s parseJwt_example_blank_token
    by (simp add: getUserIdFromToken_def claim_accessor_def opt_chain_def or_null_def
        claims_blank_def lit_def example_blank_token_def)
  show ?thesis
    using accessors_never_falsy
      [of example_store example_blank_token example_host claims_blank "JStr []"]
      s parseJwt_example_blank_token r u i
    by simp
qed

end
